theory Spec2Isabelle
  imports Main
begin

section \<open>Data model (types.ts)\<close>

text \<open>
  The interfaces of \<^verbatim>\<open>types.ts\<close> as records. Several interfaces share the field names
  \<^verbatim>\<open>id\<close>, \<^verbatim>\<open>name\<close>, \<^verbatim>\<open>authorId\<close>, \<^verbatim>\<open>deckIds\<close>, \<^verbatim>\<open>deckId\<close> and \<^verbatim>\<open>createdAt\<close>; a record
  field is a constant, so each carries the name of its interface as a prefix (as do
  \<^verbatim>\<open>term\<close> and \<^verbatim>\<open>definition\<close>, which are keywords). Ids are
  strings, timestamps are integers, an optional field is an \<open>option\<close>.
\<close>

record User =
  user_id :: string
  user_name :: string
  email :: string
  avatar :: "string option"

datatype CardStatus = New | Known | Unknown | HalfKnown

record Flashcard =
  card_id :: string
  card_term :: string
  card_definition :: string
  exampleSentence :: string
  status :: CardStatus
  nextReview :: "int option"

record Deck =
  deck_id :: string
  deck_authorId :: string
  deck_name :: string
  cards :: "Flashcard list"
  deck_createdAt :: int

record Course =
  course_id :: string
  course_name :: string
  description :: string
  course_authorId :: string
  memberIds :: "string list"
  course_deckIds :: "string list"
  course_createdAt :: int

record Folder =
  folder_id :: string
  folder_name :: string
  folder_authorId :: string
  folder_deckIds :: "string list"
  folder_createdAt :: int

datatype HistoryAction = Created | Imported

record HistoryEntry =
  entry_id :: string
  entry_userId :: string
  entry_deckId :: string
  entry_deckName :: string
  entry_action :: HistoryAction
  timestamp :: int

datatype SwipeDirection = LEFT | RIGHT | UP

section \<open>Array helpers\<close>

text \<open>
  \<^verbatim>\<open>Array.prototype.findIndex\<close>: the index of the first element that satisfies the
  predicate; the source's \<^verbatim>\<open>-1\<close> is \<open>None\<close>.
\<close>

fun findIndex :: "('a \<Rightarrow> bool) \<Rightarrow> 'a list \<Rightarrow> nat option" where
  "findIndex P [] = None"
| "findIndex P (x # xs) = (if P x then Some 0 else map_option Suc (findIndex P xs))"

text \<open>
  \<^verbatim>\<open>xs.splice(i, 0, x)\<close> inserts \<open>x\<close> before position \<open>i\<close> (at the end when \<open>i\<close> is
  the length or more); \<^verbatim>\<open>xs.splice(i, 1)\<close> removes the element at position \<open>i\<close>.
\<close>

definition splice_insert :: "nat \<Rightarrow> 'a \<Rightarrow> 'a list \<Rightarrow> 'a list" where
  "splice_insert i x xs = take i xs @ x # drop i xs"

definition splice_remove :: "nat \<Rightarrow> 'a list \<Rightarrow> 'a list" where
  "splice_remove i xs = take i xs @ drop (Suc i) xs"

section \<open>Study session (App.tsx, StudySession)\<close>

text \<open>
  \<^verbatim>\<open>type StudyCard = Flashcard & { isRetry?: boolean }\<close>. The component's state that the
  swipe and undo handlers read and write: \<^verbatim>\<open>studyQueue\<close>, \<^verbatim>\<open>sessionHistory\<close> and
  \<^verbatim>\<open>correctCount\<close>. The count starts at 0 and is only changed by \<^verbatim>\<open>prev + 1\<close> and
  \<^verbatim>\<open>Math.max(0, prev - 1)\<close>, so it is a natural number.
\<close>

record StudyCard = Flashcard +
  isRetry :: "bool option"

record TranscriptEntry =
  card :: StudyCard
  action :: SwipeDirection
  insertedAt :: "nat option"

record Session =
  studyQueue :: "StudyCard list"
  sessionHistory :: "TranscriptEntry list"
  correctCount :: nat

text \<open>
  \<^verbatim>\<open>handleCardSwipe(dir)\<close>, lines 914-940. The argument \<open>rnd\<close> is the value of
  \<^verbatim>\<open>Math.floor(Math.random() * 11)\<close> drawn by the LEFT branch, an integer from 0 to 10.
\<close>

definition handleCardSwipe :: "SwipeDirection \<Rightarrow> nat \<Rightarrow> Session \<Rightarrow> Session" where
  "handleCardSwipe dir rnd s =
     (case studyQueue s of
        [] \<Rightarrow> s
      | currentCard # remainingQueue \<Rightarrow>
          (case dir of
             LEFT \<Rightarrow>
               (let retryCard = currentCard\<lparr>isRetry := Some True\<rparr>;
                    offset = 5 + rnd;
                    at = min (length remainingQueue) offset
                in s\<lparr>studyQueue := splice_insert at retryCard remainingQueue,
                      sessionHistory := sessionHistory s @
                        [\<lparr>card = currentCard, action = dir, insertedAt = Some at\<rparr>]\<rparr>)
           | UP \<Rightarrow>
               (let retryCard = currentCard\<lparr>isRetry := Some True\<rparr>;
                    offset = 20;
                    at = min (length remainingQueue) offset
                in s\<lparr>studyQueue := splice_insert at retryCard remainingQueue,
                      sessionHistory := sessionHistory s @
                        [\<lparr>card = currentCard, action = dir, insertedAt = Some at\<rparr>]\<rparr>)
           | RIGHT \<Rightarrow>
               s\<lparr>correctCount := correctCount s + 1,
                  studyQueue := remainingQueue,
                  sessionHistory := sessionHistory s @
                    [\<lparr>card = currentCard, action = dir, insertedAt = None\<rparr>]\<rparr>))"

text \<open>\<^verbatim>\<open>handleUndo()\<close>, lines 942-962.\<close>

definition handleUndo :: "Session \<Rightarrow> Session" where
  "handleUndo s =
     (if sessionHistory s = [] then s
      else
        (let lastAction = last (sessionHistory s);
             newHistory = butlast (sessionHistory s);
             count = (if action lastAction = RIGHT
                      then nat (max 0 (int (correctCount s) - 1))
                      else correctCount s);
             newQueue =
               (if insertedAt lastAction \<noteq> None
                then (case findIndex (\<lambda>c. card_id c = card_id (card lastAction)) (studyQueue s) of
                        Some indexToRemove \<Rightarrow> splice_remove indexToRemove (studyQueue s)
                      | None \<Rightarrow> studyQueue s)
                else studyQueue s)
         in s\<lparr>sessionHistory := newHistory,
               correctCount := count,
               studyQueue := card lastAction # newQueue\<rparr>))"

text \<open>
  What the component renders, lines 964-988: the completion screen, the loading line
  (\<^verbatim>\<open>Lade Karten...\<close>) or the card view.
\<close>

datatype Screen = Finished | Loading | Studying

definition render :: "Session \<Rightarrow> Screen" where
  "render s =
     (if length (studyQueue s) = 0 \<and> correctCount s > 0 then Finished
      else if length (studyQueue s) = 0 then Loading
      else Studying)"

section \<open>Entity store and profile import (App.tsx, App)\<close>

text \<open>
  The state of the \<^verbatim>\<open>App\<close> component that the handlers below read and write. Each
  handler runs to its end on the state of the last render, so a handler is a function
  from the state to the next state.
\<close>

record App =
  currentUser :: "User option"
  decks :: "Deck list"
  courses :: "Course list"
  folders :: "Folder list"
  history :: "HistoryEntry list"
  view :: string
  activeDeckId :: "string option"

text \<open>\<^verbatim>\<open>handleDeleteDeck(deckId)\<close>, lines 138-154.\<close>

definition handleDeleteDeck :: "string \<Rightarrow> App \<Rightarrow> App" where
  "handleDeleteDeck deckId app =
     (let app' = app
            \<lparr>decks := filter (\<lambda>d. deck_id d \<noteq> deckId) (decks app),
             courses := map (\<lambda>c. c\<lparr>course_deckIds := filter (\<lambda>i. i \<noteq> deckId) (course_deckIds c)\<rparr>)
                          (courses app),
             folders := map (\<lambda>f. f\<lparr>folder_deckIds := filter (\<lambda>i. i \<noteq> deckId) (folder_deckIds f)\<rparr>)
                          (folders app)\<rparr>
      in if activeDeckId app = Some deckId
         then app'\<lparr>view := ''dashboard'', activeDeckId := None\<rparr>
         else app')"

text \<open>
  \<^verbatim>\<open>mergeData\<close>, lines 382-415. The loops over decks, folders and history entries have
  the same body, \<^verbatim>\<open>if (!merged.find(existing => existing.id === x.id)) merged.push(x)\<close>;
  \<open>mergeNew\<close> is that loop, with the field \<^verbatim>\<open>id\<close> of the collection as \<open>ident\<close>.
  \<open>mergeCourse\<close> is the body of the loop over courses.
\<close>

definition pushNew :: "('a \<Rightarrow> string) \<Rightarrow> 'a list \<Rightarrow> 'a \<Rightarrow> 'a list" where
  "pushNew ident merged x =
     (if find (\<lambda>existing. ident existing = ident x) merged = None then merged @ [x] else merged)"

definition mergeNew :: "('a \<Rightarrow> string) \<Rightarrow> 'a list \<Rightarrow> 'a list \<Rightarrow> 'a list" where
  "mergeNew ident local incoming = foldl (pushNew ident) local incoming"

definition mergeCourse :: "Course list \<Rightarrow> Course \<Rightarrow> Course list" where
  "mergeCourse mergedCourses c =
     (case findIndex (\<lambda>existing. course_id existing = course_id c) mergedCourses of
        None \<Rightarrow> mergedCourses @ [c]
      | Some existingIndex \<Rightarrow> mergedCourses[existingIndex := c])"

definition mergeCourses :: "Course list \<Rightarrow> Course list \<Rightarrow> Course list" where
  "mergeCourses local newCourses = foldl mergeCourse local newCourses"

definition mergeData ::
  "Deck list \<Rightarrow> Course list \<Rightarrow> HistoryEntry list \<Rightarrow> Folder list \<Rightarrow> App \<Rightarrow> App" where
  "mergeData newDecks newCourses newHistory newFolders app =
     app\<lparr>decks := mergeNew deck_id (decks app) newDecks,
         courses := mergeCourses (courses app) newCourses,
         folders := mergeNew folder_id (folders app) newFolders,
         history := mergeNew entry_id (history app) newHistory\<rparr>"

text \<open>
  The parsed file of \<^verbatim>\<open>processProfileFile\<close>: the fields the handler probes, each absent
  (\<open>None\<close>) or present. \<^verbatim>\<open>Array.isArray(data.decks)\<close> is \<open>data_decks \<noteq> None\<close>.
\<close>

record ProfileData =
  data_user :: "User option"
  data_type :: "string option"
  data_decks :: "Deck list option"
  data_courses :: "Course list option"
  data_history :: "HistoryEntry list option"
  data_folders :: "Folder list option"
  data_course :: "Course option"

datatype Notice =
  NoNotice | ProfileSynced | CourseImported | InvalidFile | ImportError
  | IsCourseFile | DeckImported | DeckImportError

text \<open>
  Lines 365-368: the copy of the shared course, to which the importing user is added as a
  member unless they are a member or the author already.
\<close>

definition courseToImport :: "User option \<Rightarrow> Course \<Rightarrow> Course" where
  "courseToImport user course =
     (case user of
        None \<Rightarrow> course
      | Some u \<Rightarrow>
          if user_id u \<notin> set (memberIds course) \<and> course_authorId course \<noteq> user_id u
          then course\<lparr>memberIds := memberIds course @ [user_id u]\<rparr>
          else course)"

text \<open>
  \<^verbatim>\<open>processProfileFile\<close>, lines 337-380, from the parsed file on: \<open>None\<close> is a file that
  \<^verbatim>\<open>JSON.parse\<close> rejects, \<open>confirmed\<close> is the answer to \<^verbatim>\<open>window.confirm\<close>. A backup
  without \<^verbatim>\<open>courses\<close> or \<^verbatim>\<open>history\<close> makes \<^verbatim>\<open>mergeData\<close> throw at the \<^verbatim>\<open>forEach\<close>
  of the missing array, after the collections before it were stored; the handler
  catches it.
\<close>

definition processProfileFile :: "bool \<Rightarrow> ProfileData option \<Rightarrow> App \<Rightarrow> App \<times> Notice" where
  "processProfileFile confirmed parsed app =
     (case parsed of
        None \<Rightarrow> (app, ImportError)
      | Some data \<Rightarrow>
          if data_user data \<noteq> None \<and> data_decks data \<noteq> None
             \<and> (data_type data = None \<or> data_type data = Some [])
          then
            (if confirmed then
               (case data_courses data of
                  None \<Rightarrow>
                    (app\<lparr>decks := mergeNew deck_id (decks app) (the (data_decks data))\<rparr>, ImportError)
                | Some newCourses \<Rightarrow>
                    (case data_history data of
                       None \<Rightarrow>
                         (app\<lparr>decks := mergeNew deck_id (decks app) (the (data_decks data)),
                               courses := mergeCourses (courses app) newCourses,
                               folders := mergeNew folder_id (folders app)
                                 (case data_folders data of None \<Rightarrow> [] | Some fs \<Rightarrow> fs)\<rparr>,
                          ImportError)
                     | Some newHistory \<Rightarrow>
                         (let merged = mergeData (the (data_decks data)) newCourses newHistory
                                (case data_folders data of None \<Rightarrow> [] | Some fs \<Rightarrow> fs) app
                          in if currentUser app = None
                             then (merged\<lparr>currentUser := data_user data, view := ''dashboard''\<rparr>,
                                   NoNotice)
                             else (merged, ProfileSynced))))
             else (app, NoNotice))
          else if data_type data = Some ''course_share'' \<and> data_course data \<noteq> None
                  \<and> data_decks data \<noteq> None
          then
            (if confirmed
             then (mergeData (the (data_decks data))
                     [courseToImport (currentUser app) (the (data_course data))] [] [] app,
                   CourseImported)
             else (app, NoNotice))
          else (app, InvalidFile))"




section \<open>Sequences of swipes and undos\<close>

text \<open>
  A run of swipes, each with the random draw its LEFT branch would use, and the
  condition that each swipe of the run finds a card in the queue. \<open>removeById\<close> is the
  undo's removal in the specification's words: the first card of the queue that has the
  given id is taken out.
\<close>

fun swipes :: "(SwipeDirection \<times> nat) list \<Rightarrow> Session \<Rightarrow> Session" where
  "swipes [] s = s"
| "swipes ((dir, rnd) # rest) s = swipes rest (handleCardSwipe dir rnd s)"

fun swipesOnNonEmpty :: "(SwipeDirection \<times> nat) list \<Rightarrow> Session \<Rightarrow> bool" where
  "swipesOnNonEmpty [] s = True"
| "swipesOnNonEmpty ((dir, rnd) # rest) s =
     (studyQueue s \<noteq> [] \<and> swipesOnNonEmpty rest (handleCardSwipe dir rnd s))"

fun removeById :: "string \<Rightarrow> StudyCard list \<Rightarrow> StudyCard list" where
  "removeById i [] = []"
| "removeById i (c # cs) = (if card_id c = i then cs else c # removeById i cs)"

section \<open>Example data\<close>

definition mkCard :: "string \<Rightarrow> string \<Rightarrow> StudyCard" where
  "mkCard i t =
     \<lparr>card_id = i, card_term = t, card_definition = ''def'', exampleSentence = [],
      status = New, nextReview = None, isRetry = None\<rparr>"

definition cardA :: StudyCard where "cardA = mkCard ''a'' ''Apfel''"
definition cardB :: StudyCard where "cardB = mkCard ''b'' ''Birne''"
definition cardC :: StudyCard where "cardC = mkCard ''c'' ''Chili''"
definition cardD :: StudyCard where "cardD = mkCard ''d'' ''Dattel''"
definition cardE :: StudyCard where "cardE = mkCard ''e'' ''Erbse''"

text \<open>A second card that carries the id of \<open>cardA\<close>, as a hand-edited deck file may.\<close>

definition cardA2 :: StudyCard where "cardA2 = mkCard ''a'' ''Ananas''"

definition session5 :: Session where
  "session5 = \<lparr>studyQueue = [cardA, cardB, cardC, cardD, cardE], sessionHistory = [],
               correctCount = 0\<rparr>"

definition sessionDup :: Session where
  "sessionDup = \<lparr>studyQueue = [cardA, cardA2, cardB], sessionHistory = [], correctCount = 0\<rparr>"

definition sessionEmpty :: Session where
  "sessionEmpty = \<lparr>studyQueue = [], sessionHistory = [], correctCount = 0\<rparr>"

definition sessionDone :: Session where
  "sessionDone = \<lparr>studyQueue = [], sessionHistory = [], correctCount = 2\<rparr>"

text \<open>
  A store of two decks, two courses and a folder that reference them, and one history
  entry; \<open>deckX2\<close> and \<open>courseNew\<close> are incoming records whose ids are those of
  \<open>deckX\<close> and \<open>courseOld\<close>, with other contents.
\<close>

definition userAnna :: User where
  "userAnna = \<lparr>user_id = ''anna'', user_name = ''Anna'', email = [], avatar = None\<rparr>"

definition userBert :: User where
  "userBert = \<lparr>user_id = ''bert'', user_name = ''Bert'', email = [], avatar = None\<rparr>"

definition deckX :: Deck where
  "deckX = \<lparr>deck_id = ''d1'', deck_authorId = ''bert'', deck_name = ''Obst'', cards = [],
            deck_createdAt = 1\<rparr>"

definition deckY :: Deck where
  "deckY = \<lparr>deck_id = ''d2'', deck_authorId = ''bert'', deck_name = ''Tiere'', cards = [],
            deck_createdAt = 2\<rparr>"

definition deckX2 :: Deck where
  "deckX2 = \<lparr>deck_id = ''d1'', deck_authorId = ''anna'', deck_name = ''Werkzeug'', cards = [],
             deck_createdAt = 3\<rparr>"

definition deckZ :: Deck where
  "deckZ = \<lparr>deck_id = ''d3'', deck_authorId = ''anna'', deck_name = ''Farben'', cards = [],
            deck_createdAt = 4\<rparr>"

definition courseOld :: Course where
  "courseOld = \<lparr>course_id = ''c1'', course_name = ''Kurs'', description = ''alt'',
                course_authorId = ''anna'', memberIds = [], course_deckIds = [''d1'', ''d2''],
                course_createdAt = 1\<rparr>"

definition courseNew :: Course where
  "courseNew = \<lparr>course_id = ''c1'', course_name = ''Kurs'', description = ''neu'',
                course_authorId = ''anna'', memberIds = [''carl''], course_deckIds = [''d1''],
                course_createdAt = 1\<rparr>"

definition courseTwo :: Course where
  "courseTwo = \<lparr>course_id = ''c2'', course_name = ''Zwei'', description = [],
                course_authorId = ''bert'', memberIds = [], course_deckIds = [''d2'', ''d1'', ''d3''],
                course_createdAt = 2\<rparr>"

definition folderF :: Folder where
  "folderF = \<lparr>folder_id = ''f1'', folder_name = ''Ordner'', folder_authorId = ''bert'',
              folder_deckIds = [''d1'', ''d2''], folder_createdAt = 1\<rparr>"

definition entryH :: HistoryEntry where
  "entryH = \<lparr>entry_id = ''h1'', entry_userId = ''bert'', entry_deckId = ''d1'',
             entry_deckName = ''Obst'', entry_action = Created, timestamp = 1\<rparr>"

definition appX :: App where
  "appX = \<lparr>currentUser = Some userBert, decks = [deckX, deckY], courses = [courseOld, courseTwo],
           folders = [folderF], history = [entryH], view = ''dashboard'', activeDeckId = None\<rparr>"

definition shareFile :: ProfileData where
  "shareFile = \<lparr>data_user = None, data_type = Some ''course_share'', data_decks = Some [deckX2, deckZ],
                data_courses = None, data_history = None, data_folders = None,
                data_course = Some courseNew\<rparr>"


lemmas example_store =
  userAnna_def userBert_def deckX_def deckY_def deckX2_def deckZ_def courseOld_def courseNew_def
  courseTwo_def folderF_def entryH_def appX_def

lemmas example_cards =
  mkCard_def cardA_def cardB_def cardC_def cardD_def cardE_def cardA2_def

section \<open>Lists\<close>

lemma findIndex_append_first:
  "\<forall>y\<in>set ys. \<not> P y \<Longrightarrow> P a \<Longrightarrow> findIndex P (ys @ a # zs) = Some (length ys)"
  by (induction ys) auto

lemma splice_remove_inserted:
  "splice_remove (length ys) (ys @ a # zs) = ys @ zs"
  by (simp add: splice_remove_def)

lemma findIndex_splice_insert:
  assumes "\<forall>y\<in>set rest. \<not> P y" and "P a"
  shows "findIndex P (splice_insert k a rest) = Some (min (length rest) k)"
proof -
  have "\<forall>y\<in>set (take k rest). \<not> P y"
    using assms(1) by (meson in_set_takeD)
  then have "findIndex P (take k rest @ a # drop k rest) = Some (length (take k rest))"
    using assms(2) by (rule findIndex_append_first)
  then show ?thesis
    by (simp add: splice_insert_def)
qed

lemma splice_remove_insert:
  assumes "k \<le> length rest"
  shows "splice_remove k (splice_insert k a rest) = rest"
proof -
  have "splice_remove (length (take k rest)) (take k rest @ a # drop k rest) = rest"
    by (simp only: splice_remove_inserted append_take_drop_id)
  then show ?thesis
    using assms by (simp add: splice_insert_def min_absorb2)
qed

section \<open>Swipe and undo\<close>

lemma swipe_then_undo:
  assumes "distinct (map card_id (studyQueue s))" and "studyQueue s \<noteq> []"
  shows "handleUndo (handleCardSwipe dir rnd s) = s"
proof -
  from assms(2) obtain a rest where q: "studyQueue s = a # rest"
    by (cases "studyQueue s") auto
  from assms(1) q have fresh: "\<forall>y\<in>set rest. \<not> card_id y = card_id a"
    by (auto simp: image_iff)
  have fi: "\<And>k. findIndex (\<lambda>c. card_id c = card_id a)
                (splice_insert k (a\<lparr>isRetry := Some True\<rparr>) rest) = Some (min (length rest) k)"
    by (rule findIndex_splice_insert [OF fresh]) simp
  show ?thesis
  proof (cases dir)
    case LEFT
    then show ?thesis using q
      by (simp add: handleCardSwipe_def handleUndo_def Let_def fi splice_remove_insert)
  next
    case RIGHT
    then show ?thesis using q
      by (simp add: handleCardSwipe_def handleUndo_def Let_def)
  next
    case UP
    then show ?thesis using q
      by (simp add: handleCardSwipe_def handleUndo_def Let_def fi splice_remove_insert)
  qed
qed

lemma distinct_insert_at:
  assumes "distinct (a # xs)"
  shows "distinct (take k xs @ a # drop k xs)"
proof -
  have "distinct (take k xs @ drop k xs)"
    using assms by simp
  moreover have "a \<notin> set (take k xs)" "a \<notin> set (drop k xs)"
    using assms by (auto dest: in_set_takeD in_set_dropD)
  ultimately show ?thesis
    by (simp only: distinct_append distinct.simps set_simps) auto
qed

lemma swipe_keeps_distinct:
  assumes "distinct (map card_id (studyQueue s))"
  shows "distinct (map card_id (studyQueue (handleCardSwipe dir rnd s)))"
proof (cases "studyQueue s")
  case Nil
  then show ?thesis by (simp add: handleCardSwipe_def)
next
  case (Cons a rest)
  have "\<And>k. distinct (map card_id (take k rest @ a\<lparr>isRetry := Some True\<rparr> # drop k rest))"
    using assms Cons distinct_insert_at [of "card_id a" "map card_id rest"]
    by (simp add: take_map drop_map)
  then show ?thesis using Cons assms
    by (cases dir) (simp_all add: handleCardSwipe_def Let_def splice_insert_def)
qed

lemma swipes_then_undos:
  "distinct (map card_id (studyQueue s)) \<Longrightarrow> swipesOnNonEmpty ds s \<Longrightarrow>
     (handleUndo ^^ length ds) (swipes ds s) = s"
proof (induction ds arbitrary: s)
  case Nil
  then show ?case by simp
next
  case (Cons x ds)
  obtain dir rnd where x: "x = (dir, rnd)" by (cases x)
  let ?t = "handleCardSwipe dir rnd s"
  have "(handleUndo ^^ length ds) (swipes ds ?t) = ?t"
    using Cons.prems x by (intro Cons.IH swipe_keeps_distinct) auto
  then show ?case
    using Cons.prems x by (simp add: swipe_then_undo)
qed


lemma removeById_findIndex:
  "(case findIndex (\<lambda>c. card_id c = i) q of
      Some indexToRemove \<Rightarrow> splice_remove indexToRemove q
    | None \<Rightarrow> q) = removeById i q"
proof (induction q)
  case Nil
  then show ?case by simp
next
  case (Cons c q)
  show ?case
  proof (cases "card_id c = i")
    case True
    then show ?thesis by (simp add: splice_remove_def)
  next
    case False
    then show ?thesis using Cons.IH
      by (cases "findIndex (\<lambda>c. card_id c = i) q") (simp_all add: splice_remove_def)
  qed
qed

lemma undo_step:
  assumes "sessionHistory s \<noteq> []"
  shows "handleUndo s =
     s\<lparr>sessionHistory := butlast (sessionHistory s),
       correctCount := (if action (last (sessionHistory s)) = RIGHT
                        then correctCount s - 1 else correctCount s),
       studyQueue := card (last (sessionHistory s)) #
         (if insertedAt (last (sessionHistory s)) = None then studyQueue s
          else removeById (card_id (card (last (sessionHistory s)))) (studyQueue s))\<rparr>"
proof -
  have c: "nat (max 0 (int (correctCount s) - 1)) = correctCount s - 1"
    by simp
  show ?thesis
    using assms
    by (simp add: handleUndo_def Let_def removeById_findIndex c del: of_nat_diff)
qed

section \<open>Merge\<close>

subsection \<open>The additive loop\<close>

lemma pushNew_iff:
  "pushNew ident merged x = (if ident x \<in> ident ` set merged then merged else merged @ [x])"
  by (auto simp: pushNew_def find_None_iff intro: rev_image_eqI)

lemma mergeNew_Nil: "mergeNew ident local [] = local"
  by (simp add: mergeNew_def)

lemma mergeNew_Cons: "mergeNew ident local (x # xs) = mergeNew ident (pushNew ident local x) xs"
  by (simp add: mergeNew_def)



lemma mergeNew_prefix: "take (length local) (mergeNew ident local incoming) = local"
proof (induction incoming arbitrary: local)
  case Nil
  then show ?case by (simp add: mergeNew_Nil)
next
  case (Cons x xs)
  have "take (length local) (mergeNew ident (pushNew ident local x) xs)
      = take (length local) (take (length (pushNew ident local x)) (mergeNew ident (pushNew ident local x) xs))"
    by (simp add: pushNew_iff min_def)
  also have "\<dots> = take (length local) (pushNew ident local x)"
    by (simp only: Cons.IH)
  also have "\<dots> = local"
    by (simp add: pushNew_iff)
  finally show ?case
    by (simp add: mergeNew_Cons)
qed

lemma mergeNew_ids:
  "ident ` set (mergeNew ident local incoming) = ident ` set local \<union> ident ` set incoming"
proof (induction incoming arbitrary: local)
  case Nil
  then show ?case by (simp add: mergeNew_Nil)
next
  case (Cons x xs)
  show ?case
    unfolding mergeNew_Cons Cons.IH by (auto simp: pushNew_iff)
qed




subsection \<open>The loop over courses\<close>

lemma mergeCourse_Nil: "mergeCourse [] c = [c]"
  by (simp add: mergeCourse_def)

lemma mergeCourse_Cons:
  "mergeCourse (e # m) c =
     (if course_id e = course_id c then c # m else e # mergeCourse m c)"
  by (cases "findIndex (\<lambda>existing. course_id existing = course_id c) m")
     (simp_all add: mergeCourse_def)

lemma mergeCourse_ids:
  "map course_id (mergeCourse m c) =
     (if course_id c \<in> course_id ` set m then map course_id m else map course_id m @ [course_id c])"
  by (induction m) (auto simp: mergeCourse_Nil mergeCourse_Cons)





lemma mergeCourses_Nil: "mergeCourses local [] = local"
  by (simp add: mergeCourses_def)

lemma mergeCourses_Cons: "mergeCourses local (c # cs) = mergeCourses (mergeCourse local c) cs"
  by (simp add: mergeCourses_def)



lemma mergeCourses_ids:
  "map course_id (mergeCourses local cs) = mergeNew id (map course_id local) (map course_id cs)"
proof (induction cs arbitrary: local)
  case Nil
  then show ?case by (simp add: mergeCourses_Nil mergeNew_Nil)
next
  case (Cons c cs)
  show ?case
    by (simp add: mergeCourses_Cons mergeNew_Cons Cons.IH mergeCourse_ids pushNew_iff)
qed

lemma mergeCourses_id_set:
  "course_id ` set (mergeCourses local cs) = course_id ` set local \<union> course_id ` set cs"
proof -
  have "set (map course_id (mergeCourses local cs)) = set (map course_id local) \<union> set (map course_id cs)"
    using mergeNew_ids [of id "map course_id local" "map course_id cs"]
    by (simp add: mergeCourses_ids)
  then show ?thesis by simp
qed




lemma mergeCourse_nth:
  "i < length m \<Longrightarrow>
     course_id (mergeCourse m c ! i) = course_id (m ! i)
     \<and> (course_id (m ! i) \<noteq> course_id c \<longrightarrow> mergeCourse m c ! i = m ! i)"
proof (induction m arbitrary: i)
  case Nil
  then show ?case by simp
next
  case (Cons e m)
  then show ?case
    by (cases i) (auto simp: mergeCourse_Cons)
qed

lemma mergeCourse_length: "length m \<le> length (mergeCourse m c)"
  by (induction m) (auto simp: mergeCourse_Nil mergeCourse_Cons)

lemma mergeCourses_length: "length local \<le> length (mergeCourses local cs)"
proof (induction cs arbitrary: local)
  case Nil
  then show ?case by (simp add: mergeCourses_Nil)
next
  case (Cons c cs)
  from Cons.IH [of "mergeCourse local c"] mergeCourse_length [of local c] show ?case
    by (simp add: mergeCourses_Cons)
qed

lemma mergeCourses_nth:
  "i < length local \<Longrightarrow>
     course_id (mergeCourses local cs ! i) = course_id (local ! i)
     \<and> (course_id (local ! i) \<notin> set (map course_id cs) \<longrightarrow> mergeCourses local cs ! i = local ! i)"
proof (induction cs arbitrary: local)
  case Nil
  then show ?case by (simp add: mergeCourses_Nil)
next
  case (Cons c cs)
  have i: "i < length (mergeCourse local c)"
    using Cons.prems mergeCourse_length [of local c] by simp
  from Cons.IH [OF i] mergeCourse_nth [OF Cons.prems, of c] show ?case
    by (auto simp: mergeCourses_Cons)
qed




section \<open>Swipes\<close>

text \<open>
  C9. A swipe on an empty queue is a no-op: whatever the direction, the handler returns the
  session as it was, with the queue, the transcript and the correct-count unchanged.
\<close>

theorem swipe_empty_queue_noop:
  "studyQueue s = [] \<Longrightarrow> handleCardSwipe dir rnd s = s"
  by (simp add: handleCardSwipe_def)

theorem swipe_empty_queue_noop_witness:
  "studyQueue sessionDone = [] \<and> handleCardSwipe LEFT 7 sessionDone = sessionDone"
proof -
  have e: "studyQueue sessionDone = []"
    by (simp add: sessionDone_def)
  from swipe_empty_queue_noop [OF e, of LEFT 7] e show ?thesis
    by simp
qed

text \<open>
  C4. On a non-empty queue, a RIGHT swipe shortens the queue by one, adds one to the
  correct-count and does not put the swiped card back (the queue is the old queue without
  its front); a LEFT or UP swipe removes the front card and inserts one copy of it, marked
  \<open>isRetry = true\<close>, somewhere among the remaining cards, which keep their order, so it
  keeps the length of the queue, and it keeps the correct-count; and
  every swipe appends exactly one entry, of the swiped card and the direction, to the
  transcript, with no insertion position for RIGHT.
\<close>

theorem swipe_length_and_score:
  assumes "studyQueue s \<noteq> []"
  shows "length (studyQueue (handleCardSwipe RIGHT rnd s)) + 1 = length (studyQueue s)
       \<and> correctCount (handleCardSwipe RIGHT rnd s) = correctCount s + 1
       \<and> studyQueue (handleCardSwipe RIGHT rnd s) = tl (studyQueue s)
       \<and> length (studyQueue (handleCardSwipe LEFT rnd s)) = length (studyQueue s)
       \<and> correctCount (handleCardSwipe LEFT rnd s) = correctCount s
       \<and> length (studyQueue (handleCardSwipe UP rnd s)) = length (studyQueue s)
       \<and> correctCount (handleCardSwipe UP rnd s) = correctCount s
       \<and> (\<exists>k. k \<le> length (tl (studyQueue s))
             \<and> studyQueue (handleCardSwipe LEFT rnd s) =
                 take k (tl (studyQueue s)) @ [(hd (studyQueue s))\<lparr>isRetry := Some True\<rparr>]
                   @ drop k (tl (studyQueue s)))
       \<and> (\<exists>k. k \<le> length (tl (studyQueue s))
             \<and> studyQueue (handleCardSwipe UP rnd s) =
                 take k (tl (studyQueue s)) @ [(hd (studyQueue s))\<lparr>isRetry := Some True\<rparr>]
                   @ drop k (tl (studyQueue s)))
       \<and> (\<exists>at. sessionHistory (handleCardSwipe dir rnd s) =
                 sessionHistory s @ [\<lparr>card = hd (studyQueue s), action = dir, insertedAt = at\<rparr>])
       \<and> sessionHistory (handleCardSwipe RIGHT rnd s) =
           sessionHistory s @ [\<lparr>card = hd (studyQueue s), action = RIGHT, insertedAt = None\<rparr>]"
proof -
  from assms obtain a rest where q: "studyQueue s = a # rest"
    by (cases "studyQueue s") auto
  have right: "handleCardSwipe RIGHT rnd s =
      s\<lparr>correctCount := correctCount s + 1, studyQueue := rest,
        sessionHistory := sessionHistory s @ [\<lparr>card = a, action = RIGHT, insertedAt = None\<rparr>]\<rparr>"
    using q by (simp add: handleCardSwipe_def)
  have left: "handleCardSwipe LEFT rnd s =
      s\<lparr>studyQueue := splice_insert (min (length rest) (5 + rnd)) (a\<lparr>isRetry := Some True\<rparr>) rest,
        sessionHistory := sessionHistory s @
          [\<lparr>card = a, action = LEFT, insertedAt = Some (min (length rest) (5 + rnd))\<rparr>]\<rparr>"
    using q by (simp add: handleCardSwipe_def Let_def)
  have up: "handleCardSwipe UP rnd s =
      s\<lparr>studyQueue := splice_insert (min (length rest) 20) (a\<lparr>isRetry := Some True\<rparr>) rest,
        sessionHistory := sessionHistory s @
          [\<lparr>card = a, action = UP, insertedAt = Some (min (length rest) 20)\<rparr>]\<rparr>"
    using q by (simp add: handleCardSwipe_def Let_def)
  have len: "\<And>k x. length (splice_insert k x rest) = length (studyQueue s)"
    using q by (simp add: splice_insert_def)
  have entry: "\<exists>at. sessionHistory (handleCardSwipe dir rnd s) =
                 sessionHistory s @ [\<lparr>card = hd (studyQueue s), action = dir, insertedAt = at\<rparr>]"
    using q left right up by (cases dir) simp_all
  have ins: "\<And>j. \<exists>k. k \<le> length (tl (studyQueue s))
             \<and> splice_insert (min (length rest) j) (a\<lparr>isRetry := Some True\<rparr>) rest =
                 take k (tl (studyQueue s)) @ [(hd (studyQueue s))\<lparr>isRetry := Some True\<rparr>]
                   @ drop k (tl (studyQueue s))"
  proof -
    fix j
    have "min (length rest) j \<le> length (tl (studyQueue s))
        \<and> splice_insert (min (length rest) j) (a\<lparr>isRetry := Some True\<rparr>) rest =
            take (min (length rest) j) (tl (studyQueue s)) @ [(hd (studyQueue s))\<lparr>isRetry := Some True\<rparr>]
              @ drop (min (length rest) j) (tl (studyQueue s))"
      using q by (simp add: splice_insert_def)
    then show "\<exists>k. k \<le> length (tl (studyQueue s))
             \<and> splice_insert (min (length rest) j) (a\<lparr>isRetry := Some True\<rparr>) rest =
                 take k (tl (studyQueue s)) @ [(hd (studyQueue s))\<lparr>isRetry := Some True\<rparr>]
                   @ drop k (tl (studyQueue s))"
      by (rule exI)
  qed
  have qleft: "\<exists>k. k \<le> length (tl (studyQueue s))
             \<and> studyQueue (handleCardSwipe LEFT rnd s) =
                 take k (tl (studyQueue s)) @ [(hd (studyQueue s))\<lparr>isRetry := Some True\<rparr>]
                   @ drop k (tl (studyQueue s))"
    using ins [of "5 + rnd"] by (simp add: left)
  have qup: "\<exists>k. k \<le> length (tl (studyQueue s))
             \<and> studyQueue (handleCardSwipe UP rnd s) =
                 take k (tl (studyQueue s)) @ [(hd (studyQueue s))\<lparr>isRetry := Some True\<rparr>]
                   @ drop k (tl (studyQueue s))"
    using ins [of 20] by (simp add: up)
  have rest: "length (studyQueue (handleCardSwipe RIGHT rnd s)) + 1 = length (studyQueue s)
       \<and> correctCount (handleCardSwipe RIGHT rnd s) = correctCount s + 1
       \<and> studyQueue (handleCardSwipe RIGHT rnd s) = tl (studyQueue s)
       \<and> length (studyQueue (handleCardSwipe LEFT rnd s)) = length (studyQueue s)
       \<and> correctCount (handleCardSwipe LEFT rnd s) = correctCount s
       \<and> length (studyQueue (handleCardSwipe UP rnd s)) = length (studyQueue s)
       \<and> correctCount (handleCardSwipe UP rnd s) = correctCount s
       \<and> sessionHistory (handleCardSwipe RIGHT rnd s) =
           sessionHistory s @ [\<lparr>card = hd (studyQueue s), action = RIGHT, insertedAt = None\<rparr>]"
    using q by (simp add: right left up len)
  from rest qleft qup entry show ?thesis
    by blast
qed

theorem swipe_length_and_score_witness:
  "studyQueue session5 \<noteq> []
   \<and> length (studyQueue (handleCardSwipe RIGHT 0 session5)) + 1 = length (studyQueue session5)
   \<and> correctCount (handleCardSwipe RIGHT 0 session5) = 1
   \<and> length (studyQueue (handleCardSwipe LEFT 0 session5)) = 5
   \<and> length (studyQueue (handleCardSwipe UP 0 session5)) = 5
   \<and> (\<exists>k. k \<le> length [cardB, cardC, cardD, cardE]
          \<and> studyQueue (handleCardSwipe LEFT 0 session5) =
          take k [cardB, cardC, cardD, cardE] @ [cardA\<lparr>isRetry := Some True\<rparr>]
            @ drop k [cardB, cardC, cardD, cardE])"
proof -
  have ne: "studyQueue session5 \<noteq> []"
    by (simp add: session5_def)
  have v: "length (studyQueue session5) = 5" "correctCount session5 = 0"
    "tl (studyQueue session5) = [cardB, cardC, cardD, cardE]" "hd (studyQueue session5) = cardA"
    by (simp_all add: session5_def)
  note T = swipe_length_and_score [OF ne, of 0 LEFT]
  have num: "length (studyQueue (handleCardSwipe RIGHT 0 session5)) + 1 = length (studyQueue session5)
      \<and> correctCount (handleCardSwipe RIGHT 0 session5) = 1
      \<and> length (studyQueue (handleCardSwipe LEFT 0 session5)) = 5
      \<and> length (studyQueue (handleCardSwipe UP 0 session5)) = 5"
    using T v by simp
  have ex: "\<exists>k. k \<le> length [cardB, cardC, cardD, cardE]
          \<and> studyQueue (handleCardSwipe LEFT 0 session5) =
          take k [cardB, cardC, cardD, cardE] @ [cardA\<lparr>isRetry := Some True\<rparr>]
            @ drop k [cardB, cardC, cardD, cardE]"
    using T [THEN conjunct2, THEN conjunct2, THEN conjunct2, THEN conjunct2, THEN conjunct2,
        THEN conjunct2, THEN conjunct2, THEN conjunct1] v
    by simp
  from ne num ex show ?thesis
    by blast
qed

text \<open>
  C3. On a non-empty queue with front card \<open>c\<close> and remaining cards \<open>rest\<close>, a LEFT swipe
  gives the queue \<open>rest\<close> with a copy of \<open>c\<close> marked \<open>isRetry = true\<close> inserted at position
  \<open>min (length rest) (5 + r)\<close>, where \<open>r\<close> is the random draw (an integer from 0 to 10 in
  the source; the statement holds for any draw), and an UP swipe inserts the copy at
  position \<open>min (length rest) 20\<close>; the transcript entry the swipe appends records that
  position as \<open>insertedAt\<close>.
\<close>

theorem swipe_reinsert_position:
  assumes "studyQueue s = c # rest"
  shows "studyQueue (handleCardSwipe LEFT r s) =
           take (min (length rest) (5 + r)) rest @ [c\<lparr>isRetry := Some True\<rparr>]
             @ drop (min (length rest) (5 + r)) rest
       \<and> studyQueue (handleCardSwipe LEFT r s) ! min (length rest) (5 + r) = c\<lparr>isRetry := Some True\<rparr>
       \<and> insertedAt (last (sessionHistory (handleCardSwipe LEFT r s))) = Some (min (length rest) (5 + r))
       \<and> studyQueue (handleCardSwipe UP r s) =
           take (min (length rest) 20) rest @ [c\<lparr>isRetry := Some True\<rparr>]
             @ drop (min (length rest) 20) rest
       \<and> studyQueue (handleCardSwipe UP r s) ! min (length rest) 20 = c\<lparr>isRetry := Some True\<rparr>
       \<and> insertedAt (last (sessionHistory (handleCardSwipe UP r s))) = Some (min (length rest) 20)"
proof -
  have nth: "\<And>k x. k \<le> length rest \<Longrightarrow> (take k rest @ x # drop k rest) ! k = x"
    by (simp add: nth_append)
  show ?thesis
    using assms nth [of "min (length rest) (5 + r)"] nth [of "min (length rest) 20"]
    by (simp add: handleCardSwipe_def Let_def splice_insert_def)
qed

theorem swipe_reinsert_position_witness:
  "studyQueue session5 = cardA # [cardB, cardC, cardD, cardE]
   \<and> studyQueue (handleCardSwipe LEFT 3 session5) =
       [cardB, cardC, cardD, cardE, cardA\<lparr>isRetry := Some True\<rparr>]
   \<and> insertedAt (last (sessionHistory (handleCardSwipe LEFT 3 session5))) = Some 4
   \<and> studyQueue (handleCardSwipe UP 3 session5) =
       [cardB, cardC, cardD, cardE, cardA\<lparr>isRetry := Some True\<rparr>]
   \<and> insertedAt (last (sessionHistory (handleCardSwipe UP 3 session5))) = Some 4"
proof -
  have q: "studyQueue session5 = cardA # [cardB, cardC, cardD, cardE]"
    by (simp add: session5_def)
  from swipe_reinsert_position [OF q, of 3] q show ?thesis
    by simp
qed

text \<open>
  C1 (amended). Undo inverts swipe on a queue whose cards have pairwise distinct ids: for
  every such session and every run of swipes, each performed on a non-empty queue,
  followed by as many undos, the queue, the transcript and the correct-count are what
  they were before the run. A single undo of a non-empty transcript pops its last entry,
  takes one off the correct-count (floored at 0) exactly when the entry's action is RIGHT,
  removes from the queue the first card that has the entry's card id exactly when the
  entry carries an \<open>insertedAt\<close>, and puts the entry's card at the front of the queue.
  Undo of an empty transcript changes nothing. Without the condition on the ids the first
  part fails: the lookup by id may remove another card than the copy that was re-inserted.
\<close>

theorem undo_inverts_swipes:
  "(distinct (map card_id (studyQueue s)) \<and> swipesOnNonEmpty ds s \<longrightarrow>
      (handleUndo ^^ length ds) (swipes ds s) = s)
   \<and> (sessionHistory s \<noteq> [] \<longrightarrow>
        sessionHistory (handleUndo s) = butlast (sessionHistory s)
      \<and> correctCount (handleUndo s) =
          (if action (last (sessionHistory s)) = RIGHT then correctCount s - 1 else correctCount s)
      \<and> studyQueue (handleUndo s) =
          card (last (sessionHistory s)) #
            (if insertedAt (last (sessionHistory s)) = None then studyQueue s
             else removeById (card_id (card (last (sessionHistory s)))) (studyQueue s)))
   \<and> (sessionHistory s = [] \<longrightarrow> handleUndo s = s)"
proof (intro conjI impI)
  assume "distinct (map card_id (studyQueue s)) \<and> swipesOnNonEmpty ds s"
  then show "(handleUndo ^^ length ds) (swipes ds s) = s"
    by (simp add: swipes_then_undos)
next
  assume "sessionHistory s = []"
  then show "handleUndo s = s"
    by (simp add: handleUndo_def)
qed (simp_all add: undo_step)

theorem undo_inverts_swipes_counterexample:
  "swipesOnNonEmpty [(LEFT, 0)] sessionDup
   \<and> studyQueue sessionDup = [cardA, cardA2, cardB]
   \<and> studyQueue ((handleUndo ^^ length [(LEFT, 0 :: nat)]) (swipes [(LEFT, 0)] sessionDup))
       = [cardA, cardB, cardA\<lparr>isRetry := Some True\<rparr>]
   \<and> (handleUndo ^^ length [(LEFT, 0 :: nat)]) (swipes [(LEFT, 0)] sessionDup) \<noteq> sessionDup"
proof -
  have q: "studyQueue ((handleUndo ^^ length [(LEFT, 0 :: nat)]) (swipes [(LEFT, 0)] sessionDup))
       = [cardA, cardB, cardA\<lparr>isRetry := Some True\<rparr>]"
    by (simp add: sessionDup_def handleCardSwipe_def handleUndo_def Let_def splice_insert_def
        splice_remove_def example_cards)
  have "[cardA, cardB, cardA\<lparr>isRetry := Some True\<rparr>] \<noteq> studyQueue sessionDup"
    by (simp add: sessionDup_def example_cards)
  with q have "(handleUndo ^^ length [(LEFT, 0 :: nat)]) (swipes [(LEFT, 0)] sessionDup) \<noteq> sessionDup"
    by metis
  with q show ?thesis
    by (simp add: sessionDup_def)
qed

theorem undo_inverts_swipes_witness:
  "distinct (map card_id (studyQueue session5))
   \<and> swipesOnNonEmpty [(LEFT, 3), (RIGHT, 0), (UP, 0)] session5
   \<and> (handleUndo ^^ length [(LEFT, 3 :: nat), (RIGHT, 0), (UP, 0)])
        (swipes [(LEFT, 3), (RIGHT, 0), (UP, 0)] session5) = session5
   \<and> sessionHistory (handleCardSwipe UP 0 session5) \<noteq> []
   \<and> studyQueue (handleUndo (handleCardSwipe UP 0 session5)) =
        cardA # removeById ''a'' [cardB, cardC, cardD, cardE, cardA\<lparr>isRetry := Some True\<rparr>]
   \<and> sessionHistory sessionDone = [] \<and> handleUndo sessionDone = sessionDone"
proof -
  have d: "distinct (map card_id (studyQueue session5))"
    by (simp add: session5_def example_cards)
  have n: "swipesOnNonEmpty [(LEFT, 3), (RIGHT, 0), (UP, 0)] session5"
    by (simp add: session5_def handleCardSwipe_def Let_def splice_insert_def)
  have inv: "(handleUndo ^^ length [(LEFT, 3 :: nat), (RIGHT, 0), (UP, 0)])
        (swipes [(LEFT, 3), (RIGHT, 0), (UP, 0)] session5) = session5"
    using conjunct1 [OF undo_inverts_swipes [of session5 "[(LEFT, 3), (RIGHT, 0), (UP, 0)]"]] d n
    by blast
  have up: "handleCardSwipe UP 0 session5 =
      \<lparr>studyQueue = [cardB, cardC, cardD, cardE, cardA\<lparr>isRetry := Some True\<rparr>],
       sessionHistory = [\<lparr>card = cardA, action = UP, insertedAt = Some 4\<rparr>],
       correctCount = 0\<rparr>"
    by (simp add: session5_def handleCardSwipe_def Let_def splice_insert_def)
  have h: "sessionHistory (handleCardSwipe UP 0 session5) \<noteq> []"
    by (simp add: up)
  have one: "studyQueue (handleUndo (handleCardSwipe UP 0 session5)) =
        cardA # removeById ''a'' [cardB, cardC, cardD, cardE, cardA\<lparr>isRetry := Some True\<rparr>]"
    using conjunct1 [OF conjunct2 [OF undo_inverts_swipes [of "handleCardSwipe UP 0 session5" "[]"]]] h
    by (simp add: up cardA_def mkCard_def)
  have e: "sessionHistory sessionDone = []"
    by (simp add: sessionDone_def)
  have z: "handleUndo sessionDone = sessionDone"
    using conjunct2 [OF conjunct2 [OF undo_inverts_swipes [of sessionDone "[]"]]] e
    by blast
  from d n inv h one e z show ?thesis
    by blast
qed

text \<open>
  C8. The session is shown as finished exactly when the queue is empty and the
  correct-count is above zero; with an empty queue and a correct-count of zero the
  loading line is shown instead.
\<close>

theorem finished_iff_empty_and_correct:
  "(render s = Finished \<longleftrightarrow> studyQueue s = [] \<and> correctCount s > 0)
   \<and> (studyQueue s = [] \<and> correctCount s = 0 \<longrightarrow> render s = Loading)"
  by (simp add: render_def)

theorem finished_iff_empty_and_correct_witness:
  "studyQueue sessionEmpty = [] \<and> correctCount sessionEmpty = 0
   \<and> render sessionEmpty = Loading \<and> render sessionEmpty \<noteq> Finished"
proof -
  have e: "studyQueue sessionEmpty = [] \<and> correctCount sessionEmpty = 0"
    by (simp add: sessionEmpty_def)
  from finished_iff_empty_and_correct [of sessionEmpty] e show ?thesis
    by simp
qed

section \<open>Profile merge\<close>





text \<open>
  C10. Merge never removes local data: after \<open>mergeData\<close> the ids of each of the four
  collections include the ids present before. The decks, folders and history entries
  present before are the unchanged starting segment of the merged collections. Every
  course present before keeps its position and its id, and keeps its content unless the
  bundle holds a course of the same id.
\<close>

theorem merge_keeps_local_data:
  "set (map deck_id (decks app)) \<subseteq> set (map deck_id (decks (mergeData nd nc nh nf app)))
   \<and> set (map course_id (courses app)) \<subseteq> set (map course_id (courses (mergeData nd nc nh nf app)))
   \<and> set (map folder_id (folders app)) \<subseteq> set (map folder_id (folders (mergeData nd nc nh nf app)))
   \<and> set (map entry_id (history app)) \<subseteq> set (map entry_id (history (mergeData nd nc nh nf app)))
   \<and> take (length (decks app)) (decks (mergeData nd nc nh nf app)) = decks app
   \<and> take (length (folders app)) (folders (mergeData nd nc nh nf app)) = folders app
   \<and> take (length (history app)) (history (mergeData nd nc nh nf app)) = history app
   \<and> (\<forall>i<length (courses app).
        i < length (courses (mergeData nd nc nh nf app))
        \<and> course_id (courses (mergeData nd nc nh nf app) ! i) = course_id (courses app ! i)
        \<and> (course_id (courses app ! i) \<notin> set (map course_id nc) \<longrightarrow>
             courses (mergeData nd nc nh nf app) ! i = courses app ! i))"
proof -
  have ids: "set (map deck_id (decks app)) \<subseteq> set (map deck_id (decks (mergeData nd nc nh nf app)))"
    "set (map course_id (courses app)) \<subseteq> set (map course_id (courses (mergeData nd nc nh nf app)))"
    "set (map folder_id (folders app)) \<subseteq> set (map folder_id (folders (mergeData nd nc nh nf app)))"
    "set (map entry_id (history app)) \<subseteq> set (map entry_id (history (mergeData nd nc nh nf app)))"
    by (simp_all add: mergeData_def mergeNew_ids mergeCourses_id_set)
  have pre: "take (length (decks app)) (decks (mergeData nd nc nh nf app)) = decks app"
    "take (length (folders app)) (folders (mergeData nd nc nh nf app)) = folders app"
    "take (length (history app)) (history (mergeData nd nc nh nf app)) = history app"
    by (simp_all add: mergeData_def mergeNew_prefix)
  have crs: "\<forall>i<length (courses app).
        i < length (courses (mergeData nd nc nh nf app))
        \<and> course_id (courses (mergeData nd nc nh nf app) ! i) = course_id (courses app ! i)
        \<and> (course_id (courses app ! i) \<notin> set (map course_id nc) \<longrightarrow>
             courses (mergeData nd nc nh nf app) ! i = courses app ! i)"
  proof (intro allI impI)
    fix i
    assume i: "i < length (courses app)"
    from mergeCourses_nth [OF i, of nc] mergeCourses_length [of "courses app" nc] i
    show "i < length (courses (mergeData nd nc nh nf app))
        \<and> course_id (courses (mergeData nd nc nh nf app) ! i) = course_id (courses app ! i)
        \<and> (course_id (courses app ! i) \<notin> set (map course_id nc) \<longrightarrow>
             courses (mergeData nd nc nh nf app) ! i = courses app ! i)"
      by (simp add: mergeData_def)
  qed
  from ids pre crs show ?thesis
    by blast
qed

theorem merge_keeps_local_data_witness:
  "(1::nat) < length (courses appX)
   \<and> course_id (courses appX ! 1) \<notin> set (map course_id [courseNew])
   \<and> courses (mergeData [deckX2, deckZ] [courseNew] [] [] appX) ! 1 = courseTwo
   \<and> course_id (courses (mergeData [deckX2, deckZ] [courseNew] [] [] appX) ! 0) = ''c1''
   \<and> take 2 (decks (mergeData [deckX2, deckZ] [courseNew] [] [] appX)) = [deckX, deckY]"
proof -
  have l: "(1::nat) < length (courses appX)" "(0::nat) < length (courses appX)"
    "length (decks appX) = 2" "decks appX = [deckX, deckY]"
    by (simp_all add: appX_def)
  have n: "course_id (courses appX ! 1) \<notin> set (map course_id [courseNew])"
    "courses appX ! 1 = courseTwo" "course_id (courses appX ! 0) = ''c1''"
    by (simp_all add: example_store)
  note T = merge_keeps_local_data [of appX "[deckX2, deckZ]" "[courseNew]" "[]" "[]"]
  from T l n show ?thesis
    by (metis numeral_2_eq_2)
qed





text \<open>
  C6. Import of a shared-course file by an active user, once confirmed: the course that is
  merged is the file's course, with the user's id appended to its \<open>memberIds\<close> if the
  user is neither the course's author nor among its members, and with \<open>memberIds\<close> as
  in the file otherwise.
\<close>

theorem shared_course_import_joins:
  assumes "data_type file = Some ''course_share''" and "data_course file = Some c"
    and "data_decks file = Some ds" and "currentUser app = Some u"
  shows "processProfileFile True (Some file) app =
           (mergeData ds
              [if user_id u \<noteq> course_authorId c \<and> user_id u \<notin> set (memberIds c)
               then c\<lparr>memberIds := memberIds c @ [user_id u]\<rparr> else c] [] [] app,
            CourseImported)"
  using assms by (auto simp: processProfileFile_def courseToImport_def)

theorem shared_course_import_joins_witness:
  "data_type shareFile = Some ''course_share'' \<and> data_course shareFile = Some courseNew
   \<and> data_decks shareFile = Some [deckX2, deckZ] \<and> currentUser appX = Some userBert
   \<and> user_id userBert \<noteq> course_authorId courseNew \<and> user_id userBert \<notin> set (memberIds courseNew)
   \<and> processProfileFile True (Some shareFile) appX =
        (mergeData [deckX2, deckZ] [courseNew\<lparr>memberIds := [''carl'', ''bert'']\<rparr>] [] [] appX,
         CourseImported)
   \<and> currentUser (appX\<lparr>currentUser := Some userAnna\<rparr>) = Some userAnna
   \<and> user_id userAnna = course_authorId courseNew
   \<and> processProfileFile True (Some shareFile) (appX\<lparr>currentUser := Some userAnna\<rparr>) =
        (mergeData [deckX2, deckZ] [courseNew] [] [] (appX\<lparr>currentUser := Some userAnna\<rparr>),
         CourseImported)"
proof -
  have f: "data_type shareFile = Some ''course_share''" "data_course shareFile = Some courseNew"
    "data_decks shareFile = Some [deckX2, deckZ]"
    by (simp_all add: shareFile_def)
  have b: "currentUser appX = Some userBert"
    by (simp add: appX_def)
  have a: "currentUser (appX\<lparr>currentUser := Some userAnna\<rparr>) = Some userAnna"
    by simp
  have m: "user_id userBert \<noteq> course_authorId courseNew \<and> user_id userBert \<notin> set (memberIds courseNew)"
    "user_id userAnna = course_authorId courseNew"
    "courseNew\<lparr>memberIds := memberIds courseNew @ [user_id userBert]\<rparr>
       = courseNew\<lparr>memberIds := [''carl'', ''bert'']\<rparr>"
    by (simp_all add: example_store)
  from shared_course_import_joins [OF f b] shared_course_import_joins [OF f a] f b m
  show ?thesis
    by simp
qed


section \<open>Deck deletion\<close>

text \<open>
  C7. Deleting a deck removes the decks of that id from the deck collection, and in every
  course and every folder it removes that id from \<open>deckIds\<close> and nothing else: the other
  entries of \<open>deckIds\<close> stay, in their order, and so do the other fields of every course
  and folder, the history and the user.
\<close>

theorem delete_deck_prunes_references:
  "decks (handleDeleteDeck d app) = filter (\<lambda>x. deck_id x \<noteq> d) (decks app)
   \<and> d \<notin> set (map deck_id (decks (handleDeleteDeck d app)))
   \<and> length (courses (handleDeleteDeck d app)) = length (courses app)
   \<and> length (folders (handleDeleteDeck d app)) = length (folders app)
   \<and> (\<forall>i<length (courses app).
         courses (handleDeleteDeck d app) ! i =
           (courses app ! i)\<lparr>course_deckIds := filter (\<lambda>x. x \<noteq> d) (course_deckIds (courses app ! i))\<rparr>
         \<and> d \<notin> set (course_deckIds (courses (handleDeleteDeck d app) ! i)))
   \<and> (\<forall>i<length (folders app).
         folders (handleDeleteDeck d app) ! i =
           (folders app ! i)\<lparr>folder_deckIds := filter (\<lambda>x. x \<noteq> d) (folder_deckIds (folders app ! i))\<rparr>
         \<and> d \<notin> set (folder_deckIds (folders (handleDeleteDeck d app) ! i)))
   \<and> history (handleDeleteDeck d app) = history app
   \<and> currentUser (handleDeleteDeck d app) = currentUser app"
proof -
  have "d \<notin> set (map deck_id (filter (\<lambda>x. deck_id x \<noteq> d) (decks app)))"
    by auto
  moreover have "\<And>xs. d \<notin> set (filter (\<lambda>x. x \<noteq> d) xs)"
    by simp
  ultimately show ?thesis
    by (simp add: handleDeleteDeck_def Let_def del: set_map set_filter)
qed

theorem delete_deck_prunes_references_witness:
  "(0::nat) < length (courses appX) \<and> (1::nat) < length (courses appX)
   \<and> (0::nat) < length (folders appX)
   \<and> decks (handleDeleteDeck ''d1'' appX) = [deckY]
   \<and> courses (handleDeleteDeck ''d1'' appX) ! 0 = courseOld\<lparr>course_deckIds := [''d2'']\<rparr>
   \<and> courses (handleDeleteDeck ''d1'' appX) ! 1 = courseTwo\<lparr>course_deckIds := [''d2'', ''d3'']\<rparr>
   \<and> folders (handleDeleteDeck ''d1'' appX) ! 0 = folderF\<lparr>folder_deckIds := [''d2'']\<rparr>"
proof -
  have l: "(0::nat) < length (courses appX)" "(1::nat) < length (courses appX)"
    "(0::nat) < length (folders appX)"
    by (simp_all add: appX_def)
  have v: "filter (\<lambda>x. deck_id x \<noteq> ''d1'') (decks appX) = [deckY]"
    "(courses appX ! 0)\<lparr>course_deckIds := filter (\<lambda>x. x \<noteq> ''d1'') (course_deckIds (courses appX ! 0))\<rparr>
       = courseOld\<lparr>course_deckIds := [''d2'']\<rparr>"
    "(courses appX ! 1)\<lparr>course_deckIds := filter (\<lambda>x. x \<noteq> ''d1'') (course_deckIds (courses appX ! 1))\<rparr>
       = courseTwo\<lparr>course_deckIds := [''d2'', ''d3'']\<rparr>"
    "(folders appX ! 0)\<lparr>folder_deckIds := filter (\<lambda>x. x \<noteq> ''d1'') (folder_deckIds (folders appX ! 0))\<rparr>
       = folderF\<lparr>folder_deckIds := [''d2'']\<rparr>"
    by (simp_all add: example_store)
  note T = delete_deck_prunes_references [of "''d1''" appX]
  from T l v show ?thesis
    by metis
qed


end
